theory Spec2Isabelle
  imports Complex_Main "HOL-Library.Log_Nat"
begin

section \<open>Python numbers\<close>

text \<open>
  The scorer of \<^verbatim>\<open>compound_risk_scorer.py\<close> computes with Python ints (unbounded, HOL
  \<open>int\<close> and \<open>nat\<close>) and Python floats (IEEE 754 binary64). A float is either a finite
  value, carried as the rational it denotes, an infinity or NaN. The sign of a zero is not
  tracked: no operation of the scorer can observe it.
\<close>

datatype pyfloat = Fin rat | PInf | NInf | NaN

datatype exn = ValueError | OverflowError | ZeroDivisionError | TypeError

text \<open>Round half to even to an integer (Python's \<^verbatim>\<open>round(x)\<close> on a float).\<close>

definition rhe :: "rat \<Rightarrow> int" where
  "rhe q = (let f = \<lfloor>q\<rfloor>; r = q - of_int f in
     if r < 1/2 then f else if 1/2 < r then f + 1 else if even f then f else f + 1)"

definition pow2 :: "int \<Rightarrow> rat" where
  "pow2 e = (if 0 \<le> e then 2 ^ nat e else 1 / 2 ^ nat (- e))"

text \<open>
  \<open>ilog2 x\<close> is the binary exponent of a positive rational: \<open>2^e \<le> x < 2^(e+1)\<close>.
  It is computed from the bit lengths of numerator and denominator, which give the exponent
  up to one; the comparison settles it.
\<close>

definition ilog2 :: "rat \<Rightarrow> int" where
  "ilog2 x = (let (p, q) = quotient_of x;
                  d = int (floorlog 2 (nat p)) - int (floorlog 2 (nat q))
              in if pow2 d \<le> x then d else d - 1)"

text \<open>
  The exponent of the unit in the last place of the binary64 value nearest to \<open>x\<close>:
  53 significant bits, and the fixed exponent \<open>-1074\<close> in the subnormal range.
\<close>

definition uexp :: "rat \<Rightarrow> int" where
  "uexp x = max (ilog2 x) (- 1022) - 52"

definition round_mag :: "rat \<Rightarrow> rat" where
  "round_mag x = (let u = pow2 (uexp x) in of_int (rhe (x / u)) * u)"

text \<open>
  \<open>rnd\<close> is round-to-nearest, ties-to-even, of an exact result to binary64, with overflow
  to an infinity. Every float operation below is the exact operation followed by \<open>rnd\<close>.
\<close>

definition rnd :: "rat \<Rightarrow> pyfloat" where
  "rnd x = (if x = 0 then Fin 0 else
     let m = round_mag \<bar>x\<bar> in
     if 2 ^ 1024 \<le> m then (if 0 < x then PInf else NInf)
     else Fin (if 0 < x then m else - m))"

text \<open>A float literal of the source, such as \<^verbatim>\<open>0.30\<close>, denotes the nearest binary64 value.\<close>

definition float_lit :: "rat \<Rightarrow> pyfloat" where
  "float_lit q = rnd q"

definition fsign :: "pyfloat \<Rightarrow> int" where
  "fsign x = (case x of Fin a \<Rightarrow> (if 0 < a then 1 else if a < 0 then - 1 else 0)
                      | PInf \<Rightarrow> 1 | NInf \<Rightarrow> - 1 | NaN \<Rightarrow> 0)"

fun fadd :: "pyfloat \<Rightarrow> pyfloat \<Rightarrow> pyfloat" where
  "fadd (Fin a) (Fin b) = rnd (a + b)"
| "fadd NaN _ = NaN"
| "fadd _ NaN = NaN"
| "fadd PInf NInf = NaN"
| "fadd NInf PInf = NaN"
| "fadd PInf _ = PInf"
| "fadd _ PInf = PInf"
| "fadd NInf _ = NInf"
| "fadd _ NInf = NInf"

fun fmul :: "pyfloat \<Rightarrow> pyfloat \<Rightarrow> pyfloat" where
  "fmul (Fin a) (Fin b) = rnd (a * b)"
| "fmul NaN _ = NaN"
| "fmul _ NaN = NaN"
| "fmul x y = (let s = fsign x * fsign y in
                if s = 0 then NaN else if 0 < s then PInf else NInf)"

text \<open>
  IEEE division, as numpy scalars divide. A zero divisor gives an infinity or NaN; Python's
  own \<^verbatim>\<open>/\<close> raises instead, see \<open>py_truediv\<close>.
\<close>

fun fdiv :: "pyfloat \<Rightarrow> pyfloat \<Rightarrow> pyfloat" where
  "fdiv (Fin a) (Fin b) =
     (if b = 0 then (if a = 0 then NaN else if 0 < a then PInf else NInf) else rnd (a / b))"
| "fdiv NaN _ = NaN"
| "fdiv _ NaN = NaN"
| "fdiv (Fin a) _ = Fin 0"
| "fdiv PInf (Fin b) = (if 0 \<le> b then PInf else NInf)"
| "fdiv NInf (Fin b) = (if 0 \<le> b then NInf else PInf)"
| "fdiv _ _ = NaN"

definition py_truediv :: "pyfloat \<Rightarrow> pyfloat \<Rightarrow> exn + pyfloat" where
  "py_truediv x y = (if y = Fin 0 then Inl ZeroDivisionError else Inr (fdiv x y))"

text \<open>
  Comparison \<^verbatim>\<open><\<close>; every comparison with NaN is false. Python compares an int with a
  float exactly, so an int \<open>n\<close> enters a comparison as \<open>Fin (of_int n)\<close>.
\<close>

fun flt :: "pyfloat \<Rightarrow> pyfloat \<Rightarrow> bool" where
  "flt (Fin a) (Fin b) = (a < b)"
| "flt NaN _ = False"
| "flt _ NaN = False"
| "flt NInf NInf = False"
| "flt NInf _ = True"
| "flt _ NInf = False"
| "flt PInf _ = False"
| "flt _ PInf = True"

text \<open>
  The builtins \<^verbatim>\<open>min(a, b)\<close> and \<^verbatim>\<open>max(a, b)\<close> keep the first argument unless the second
  is strictly smaller (larger).
\<close>

definition pymin :: "pyfloat \<Rightarrow> pyfloat \<Rightarrow> pyfloat" where
  "pymin a b = (if flt b a then b else a)"

definition pymax :: "pyfloat \<Rightarrow> pyfloat \<Rightarrow> pyfloat" where
  "pymax a b = (if flt a b then b else a)"

text \<open>\<^verbatim>\<open>round(x)\<close>: NaN raises ValueError, an infinity raises OverflowError.\<close>

definition py_round :: "pyfloat \<Rightarrow> exn + int" where
  "py_round x = (case x of Fin q \<Rightarrow> Inr (rhe q) | NaN \<Rightarrow> Inl ValueError
                         | PInf \<Rightarrow> Inl OverflowError | NInf \<Rightarrow> Inl OverflowError)"

text \<open>
  \<^verbatim>\<open>round(x, 1)\<close>: the decimal with one fractional digit nearest to the exact value of
  \<open>x\<close>, converted back to a float; infinities and NaN are returned unchanged.
\<close>

definition py_round1 :: "pyfloat \<Rightarrow> pyfloat" where
  "py_round1 x = (case x of Fin q \<Rightarrow> rnd (of_int (rhe (q * 10)) / 10) | _ \<Rightarrow> x)"

text \<open>
  A numpy \<^verbatim>\<open>float64\<close> scalar is a binary64 value with the same arithmetic, but the builtin
  \<^verbatim>\<open>round(x, 1)\<close> hands it to numpy, which rounds by scaling: \<^verbatim>\<open>rint(x * 10) / 10\<close>, each
  step a float operation, \<^verbatim>\<open>rint\<close> rounding half to even. The two roundings differ, for
  instance at the float nearest to 148.95, which is below it: Python gives 148.9, but the
  product with 10 rounds to 1489.5 and numpy gives 149.0.
\<close>

definition rint :: "pyfloat \<Rightarrow> pyfloat" where
  "rint x = (case x of Fin q \<Rightarrow> Fin (of_int (rhe q)) | _ \<Rightarrow> x)"

definition np_round1 :: "pyfloat \<Rightarrow> pyfloat" where
  "np_round1 x = fdiv (rint (fmul x (Fin 10))) (Fin 10)"

text \<open>
  A number together with what the builtins need to know of its type: \<open>Builtin\<close> for a
  Python int or float, \<open>Float64\<close> for a numpy scalar. An operation with a numpy operand
  returns a numpy scalar; \<^verbatim>\<open>min\<close> returns one of its arguments as it is.
\<close>

datatype number = Builtin pyfloat | Float64 pyfloat

fun num_value :: "number \<Rightarrow> pyfloat" where
  "num_value (Builtin x) = x"
| "num_value (Float64 x) = x"

fun is_float64 :: "number \<Rightarrow> bool" where
  "is_float64 (Builtin x) = False"
| "is_float64 (Float64 x) = True"

definition num_op :: "(pyfloat \<Rightarrow> pyfloat \<Rightarrow> pyfloat) \<Rightarrow> number \<Rightarrow> number \<Rightarrow> number" where
  "num_op f a b =
     (if is_float64 a \<or> is_float64 b then Float64 (f (num_value a) (num_value b))
      else Builtin (f (num_value a) (num_value b)))"

definition num_min :: "number \<Rightarrow> number \<Rightarrow> number" where
  "num_min a b = (if flt (num_value b) (num_value a) then b else a)"

fun round1 :: "number \<Rightarrow> pyfloat" where
  "round1 (Builtin x) = py_round1 x"
| "round1 (Float64 x) = np_round1 x"

text \<open>Conversion of an int operand to float: too large an int raises OverflowError.\<close>

definition float_of_int :: "int \<Rightarrow> exn + pyfloat" where
  "float_of_int n = (case rnd (of_int n) of Fin q \<Rightarrow> Inr (Fin q) | _ \<Rightarrow> Inl OverflowError)"

text \<open>True division \<^verbatim>\<open>a / b\<close> of two ints: the correctly rounded quotient.\<close>

definition int_truediv :: "int \<Rightarrow> int \<Rightarrow> exn + pyfloat" where
  "int_truediv a b =
     (if b = 0 then Inl ZeroDivisionError
      else case rnd (of_int a / of_int b) of Fin q \<Rightarrow> Inr (Fin q) | _ \<Rightarrow> Inl OverflowError)"

text \<open>
  The length of a list as a float operand. A Python list has fewer than \<open>2^63\<close> elements,
  so this conversion cannot overflow.
\<close>

definition float_of_len :: "nat \<Rightarrow> pyfloat" where
  "float_of_len n = rnd (of_nat n)"

section \<open>Strings and the builtin conversions\<close>

text \<open>
  Field contents are strings of \<open>char\<close>: a \<open>char\<close> is a code point below 256, so the
  strings are those of Latin-1. \<open>lower\<close> is \<^verbatim>\<open>str.lower()\<close>, which maps the letters
  \<open>A\<close> to \<open>Z\<close> and the capital letters from U+00C0 to U+00DE (U+00D7 is the multiplication
  sign) to the code point 32 above and leaves every other code point below 256 alone.
  \<open>py_in sub s\<close> is the substring test \<^verbatim>\<open>sub in s\<close>.
\<close>

definition upper_letters :: string where
  "upper_letters = ''ABCDEFGHIJKLMNOPQRSTUVWXYZ'' @
     [CHR 0xC0, CHR 0xC1, CHR 0xC2, CHR 0xC3, CHR 0xC4, CHR 0xC5, CHR 0xC6, CHR 0xC7,
      CHR 0xC8, CHR 0xC9, CHR 0xCA, CHR 0xCB, CHR 0xCC, CHR 0xCD, CHR 0xCE, CHR 0xCF,
      CHR 0xD0, CHR 0xD1, CHR 0xD2, CHR 0xD3, CHR 0xD4, CHR 0xD5, CHR 0xD6, CHR 0xD8,
      CHR 0xD9, CHR 0xDA, CHR 0xDB, CHR 0xDC, CHR 0xDD, CHR 0xDE]"

definition lower_letters :: string where
  "lower_letters = ''abcdefghijklmnopqrstuvwxyz'' @
     [CHR 0xE0, CHR 0xE1, CHR 0xE2, CHR 0xE3, CHR 0xE4, CHR 0xE5, CHR 0xE6, CHR 0xE7,
      CHR 0xE8, CHR 0xE9, CHR 0xEA, CHR 0xEB, CHR 0xEC, CHR 0xED, CHR 0xEE, CHR 0xEF,
      CHR 0xF0, CHR 0xF1, CHR 0xF2, CHR 0xF3, CHR 0xF4, CHR 0xF5, CHR 0xF6, CHR 0xF8,
      CHR 0xF9, CHR 0xFA, CHR 0xFB, CHR 0xFC, CHR 0xFD, CHR 0xFE]"

definition lower_char :: "char \<Rightarrow> char" where
  "lower_char c = (case map_of (zip upper_letters lower_letters) c of None \<Rightarrow> c | Some d \<Rightarrow> d)"

definition lower :: "string \<Rightarrow> string" where
  "lower s = map lower_char s"

fun startswith :: "string \<Rightarrow> string \<Rightarrow> bool" where
  "startswith s [] = True"
| "startswith [] (p # ps) = False"
| "startswith (c # cs) (p # ps) = (c = p \<and> startswith cs ps)"

fun py_in :: "string \<Rightarrow> string \<Rightarrow> bool" where
  "py_in sub [] = (sub = [])"
| "py_in sub (c # cs) = (startswith (c # cs) sub \<or> py_in sub cs)"

text \<open>
  \<^verbatim>\<open>int(s)\<close> and \<^verbatim>\<open>float(s)\<close> on a string: surrounding whitespace is dropped, a sign
  may follow, digits may be grouped by single underscores. \<open>None\<close> stands for the
  ValueError that the builtin raises on any other text. The whitespace that the two
  builtins drop is the ASCII whitespace, the next-line control U+0085 and the no-break
  space U+00A0; the separators U+001C to U+001F are not dropped. Below 256 the only
  decimal digits are \<open>0\<close> to \<open>9\<close>.
\<close>

definition is_space :: "char \<Rightarrow> bool" where
  "is_space c =
     (c \<in> set [CHR 0x09, CHR 0x0A, CHR 0x0B, CHR 0x0C, CHR 0x0D, CHR 0x20, CHR 0x85, CHR 0xA0])"

definition strip :: "string \<Rightarrow> string" where
  "strip s = rev (dropWhile is_space (rev (dropWhile is_space s)))"

definition digit_val :: "char \<Rightarrow> nat option" where
  "digit_val c = map_of (zip ''0123456789'' [0, 1, 2, 3, 4, 5, 6, 7, 8, 9]) c"

fun digitpart :: "string \<Rightarrow> nat list option" where
  "digitpart [] = None"
| "digitpart [c] = (case digit_val c of None \<Rightarrow> None | Some v \<Rightarrow> Some [v])"
| "digitpart (c # d # cs) =
     (case digit_val c of None \<Rightarrow> None
      | Some v \<Rightarrow>
          (case (if d = CHR ''_'' then digitpart cs else digitpart (d # cs)) of
             None \<Rightarrow> None | Some vs \<Rightarrow> Some (v # vs)))"

definition digits_value :: "nat list \<Rightarrow> nat" where
  "digits_value ds = foldl (\<lambda>a d. 10 * a + d) 0 ds"

definition split_sign :: "string \<Rightarrow> bool \<times> string" where
  "split_sign s =
     (case s of [] \<Rightarrow> (False, [])
      | c # cs \<Rightarrow> if c = CHR ''-'' then (True, cs)
                  else if c = CHR ''+'' then (False, cs) else (False, s))"

definition signed_digits :: "string \<Rightarrow> int option" where
  "signed_digits s =
     (let (neg, body) = split_sign s in
      case digitpart body of None \<Rightarrow> None
      | Some ds \<Rightarrow> Some (if neg then - int (digits_value ds) else int (digits_value ds)))"

text \<open>
  \<^verbatim>\<open>int\<close> refuses, with ValueError, a string of more than 4300 digits (the default of
  \<^verbatim>\<open>sys.int_info.default_max_str_digits\<close> since Python 3.11); underscores and the sign do
  not count, leading zeros do. \<^verbatim>\<open>float\<close> has no such limit.
\<close>

definition max_str_digits :: nat where
  "max_str_digits = 4300"

definition py_int :: "string \<Rightarrow> int option" where
  "py_int s =
     (let (neg, body) = split_sign (strip s) in
      case digitpart body of None \<Rightarrow> None
      | Some ds \<Rightarrow>
          if max_str_digits < length ds then None
          else Some (if neg then - int (digits_value ds) else int (digits_value ds)))"

definition pow10 :: "int \<Rightarrow> rat" where
  "pow10 e = (if 0 \<le> e then 10 ^ nat e else 1 / 10 ^ nat (- e))"

definition optional_digits :: "string \<Rightarrow> nat list option" where
  "optional_digits s = (if s = [] then Some [] else digitpart s)"

definition is_e :: "char \<Rightarrow> bool" where
  "is_e c = (c = CHR ''e'' \<or> c = CHR ''E'')"

text \<open>
  A decimal numeral: digits with an optional fraction (at least one digit on one side of
  the point) and an optional exponent. The result is its exact value.
\<close>

definition parse_decimal :: "string \<Rightarrow> rat option" where
  "parse_decimal s =
     (let mant = takeWhile (\<lambda>c. \<not> is_e c) s;
          rest = dropWhile (\<lambda>c. \<not> is_e c) s;
          ip = takeWhile (\<lambda>c. c \<noteq> CHR ''.'') mant;
          fp = dropWhile (\<lambda>c. c \<noteq> CHR ''.'') mant;
          digits =
            (if fp = [] then (case digitpart ip of None \<Rightarrow> None | Some ds \<Rightarrow> Some (ds, []))
             else (case optional_digits ip of None \<Rightarrow> None
                   | Some ds \<Rightarrow>
                       (case optional_digits (tl fp) of None \<Rightarrow> None
                        | Some fs \<Rightarrow> if ds = [] \<and> fs = [] then None else Some (ds, fs))));
          expo = (if rest = [] then Some 0 else signed_digits (tl rest))
      in case digits of None \<Rightarrow> None
         | Some (ds, fs) \<Rightarrow>
             (case expo of None \<Rightarrow> None
              | Some e \<Rightarrow> Some (of_nat (digits_value (ds @ fs)) * pow10 (e - int (length fs)))))"

definition py_float :: "string \<Rightarrow> pyfloat option" where
  "py_float s =
     (let (neg, body) = split_sign (strip s); w = lower body in
      if w = ''inf'' \<or> w = ''infinity'' then Some (if neg then NInf else PInf)
      else if w = ''nan'' then Some NaN
      else case parse_decimal body of None \<Rightarrow> None
           | Some q \<Rightarrow> Some (rnd (if neg then - q else q)))"

section \<open>Transactions\<close>

text \<open>
  A transaction is the dict that the block explorer returns: string keys, string values.
  \<open>get_str\<close> is \<^verbatim>\<open>tx.get(key, default)\<close>; \<open>field_float\<close> and \<open>field_int\<close> are
  \<^verbatim>\<open>float(tx.get(key, 0))\<close> and \<^verbatim>\<open>int(tx.get(key, d))\<close>, with \<open>None\<close> for the ValueError
  that the enclosing \<^verbatim>\<open>except (ValueError, TypeError)\<close> clause catches. With string values
  no TypeError arises.
\<close>

type_synonym tx = "string \<rightharpoonup> string"

definition get_str :: "tx \<Rightarrow> string \<Rightarrow> string \<Rightarrow> string" where
  "get_str tx key dflt = (case tx key of None \<Rightarrow> dflt | Some v \<Rightarrow> v)"

definition field_float :: "tx \<Rightarrow> string \<Rightarrow> pyfloat option" where
  "field_float tx key = (case tx key of None \<Rightarrow> Some (Fin 0) | Some s \<Rightarrow> py_float s)"

definition field_int :: "tx \<Rightarrow> string \<Rightarrow> int \<Rightarrow> int option" where
  "field_int tx key dflt = (case tx key of None \<Rightarrow> Some dflt | Some s \<Rightarrow> py_int s)"

section \<open>The five risk calculators\<close>

subsection \<open>Liquidation risk\<close>

text \<open>
  The body of the loop over \<^verbatim>\<open>all_txs[-50:]\<close>. When \<^verbatim>\<open>float(tx.get('value', 0))\<close> raises,
  the \<^verbatim>\<open>except\<close> clause continues with the next entry, before the function name is looked
  at. The quotient \<^verbatim>\<open>value\<close> and the sum \<^verbatim>\<open>total_value\<close> are never read and float division
  by \<^verbatim>\<open>1e18\<close> and float addition cannot raise, so they are left out.
\<close>

definition liquidation_step :: "tx \<Rightarrow> nat \<times> nat \<Rightarrow> nat \<times> nat" where
  "liquidation_step tx counts =
     (case counts of (supply_count, borrow_count) \<Rightarrow>
        (case field_float tx ''value'' of
           None \<Rightarrow> (supply_count, borrow_count)
         | Some v \<Rightarrow>
             let func_name = lower (get_str tx ''functionName'' '''') in
             if py_in ''mint'' func_name \<or> py_in ''supply'' func_name
             then (supply_count + 1, borrow_count)
             else if py_in ''borrow'' func_name then (supply_count, borrow_count + 1)
             else (supply_count, borrow_count)))"

definition last50 :: "'a list \<Rightarrow> 'a list" where
  "last50 xs = drop (length xs - 50) xs"

definition calculate_liquidation_risk :: "tx list \<Rightarrow> tx list \<Rightarrow> exn + pyfloat" where
  "calculate_liquidation_risk transactions token_transactions =
     (if transactions = [] \<and> token_transactions = [] then Inr (Fin 500)
      else
        let all_txs = transactions @ token_transactions;
            (supply_count, borrow_count) =
               foldl (\<lambda>counts tx. liquidation_step tx counts) (0, 0) (last50 all_txs)
        in case (if supply_count + borrow_count = 0 then Inr (float_lit (1 / 2))
                 else int_truediv (int borrow_count) (int (supply_count + borrow_count + 1))) of
             Inl e \<Rightarrow> Inl e
           | Inr utilization_ratio \<Rightarrow>
               let utilization_score = pymin (fmul utilization_ratio (Fin 1000)) (Fin 1000);
                   frequency_penalty =
                     (if 100 < length all_txs
                      then min ((int (length all_txs) - 100) * 2) 200 else 0)
               in Inr (pymin (fadd utilization_score (Fin (of_int frequency_penalty)))
                             (Fin 1000)))"

subsection \<open>Volatility risk\<close>

text \<open>
  The statistics come from numpy, which is not part of the repository: they are
  parameters. \<open>np_mean\<close> and \<open>np_std\<close> act on the float array of the amounts;
  \<open>np_diff_mean xs\<close> and \<open>np_diff_std xs\<close> stand for \<^verbatim>\<open>np.mean(np.diff(xs))\<close> and
  \<^verbatim>\<open>np.std(np.diff(xs))\<close> on a list of ints, which may raise (ints outside the range of
  the fixed-width integer types). The results are numpy scalars.
\<close>

record numpy =
  np_mean :: "pyfloat list \<Rightarrow> pyfloat"
  np_std :: "pyfloat list \<Rightarrow> pyfloat"
  np_diff_mean :: "int list \<Rightarrow> exn + pyfloat"
  np_diff_std :: "int list \<Rightarrow> exn + pyfloat"

definition volatility_step :: "tx \<Rightarrow> pyfloat list \<times> int list \<Rightarrow> pyfloat list \<times> int list" where
  "volatility_step tx acc =
     (case acc of (amounts, timestamps) \<Rightarrow>
        (case field_float tx ''value'' of
           None \<Rightarrow> (amounts, timestamps)
         | Some v \<Rightarrow>
             let val = fdiv v (float_lit (10 ^ 18)) in
             (case field_int tx ''timeStamp'' 0 of
                None \<Rightarrow> (amounts, timestamps)
              | Some timestamp \<Rightarrow>
                  if flt (Fin 0) val then (amounts @ [val], timestamps @ [timestamp])
                  else (amounts, timestamps))))"

text \<open>
  The function with the type of the number it returns: an int on the two early returns,
  a numpy scalar when a coefficient of variation comes from numpy, the int 1000 when the
  minimum cuts.
\<close>

definition calculate_volatility_risk_typed :: "numpy \<Rightarrow> tx list \<Rightarrow> exn + number" where
  "calculate_volatility_risk_typed np transactions =
     (if transactions = [] then Inr (Builtin (Fin 300))
      else
        let (amounts, timestamps) =
               foldl (\<lambda>acc tx. volatility_step tx acc) ([], []) transactions
        in if length amounts < 2 then Inr (Builtin (Fin 400))
           else
             let cv_amounts =
                   (if flt (Fin 0) (np_mean np amounts)
                    then Float64 (fdiv (np_std np amounts) (np_mean np amounts))
                    else Builtin (Fin 1))
             in case (if 1 < length timestamps
                      then (case np_diff_mean np (sort timestamps) of
                              Inl e \<Rightarrow> Inl e
                            | Inr m \<Rightarrow>
                                if flt (Fin 0) m
                                then (case np_diff_std np (sort timestamps) of
                                        Inl e \<Rightarrow> Inl e | Inr sd \<Rightarrow> Inr (Float64 (fdiv sd m)))
                                else Inr (Builtin (Fin 0)))
                      else Inr (Builtin (Fin 0))) of
                  Inl e \<Rightarrow> Inl e
                | Inr cv_timing \<Rightarrow>
                    Inr (num_min
                           (num_op fadd (num_op fmul cv_amounts (Builtin (Fin 300)))
                                        (num_op fmul cv_timing (Builtin (float_lit (1 / 100)))))
                           (Builtin (Fin 1000))))"

text \<open>The value that the function returns.\<close>

definition calculate_volatility_risk :: "numpy \<Rightarrow> tx list \<Rightarrow> exn + pyfloat" where
  "calculate_volatility_risk np transactions =
     (case calculate_volatility_risk_typed np transactions of
        Inl e \<Rightarrow> Inl e | Inr x \<Rightarrow> Inr (num_value x))"

subsection \<open>Concentration risk\<close>

text \<open>
  \<open>divide_by_pow10 v d\<close> is \<^verbatim>\<open>v / (10 ** d)\<close> for a float \<open>v\<close> and an int \<open>d\<close>. For
  \<open>d \<ge> 0\<close> the power is an int, converted to float for the division. For \<open>d < 0\<close>
  Python computes the power in floats, after converting \<open>d\<close>, and the result is zero when
  it underflows. Neither OverflowError nor ZeroDivisionError is caught by the
  \<^verbatim>\<open>except (ValueError, TypeError)\<close> clause around it.
\<close>

definition divide_by_pow10 :: "pyfloat \<Rightarrow> int \<Rightarrow> exn + pyfloat" where
  "divide_by_pow10 v d =
     (if 0 \<le> d
      then (case float_of_int (10 ^ nat d) of Inl e \<Rightarrow> Inl e | Inr p \<Rightarrow> py_truediv v p)
      else (case float_of_int d of Inl e \<Rightarrow> Inl e
            | Inr _ \<Rightarrow> py_truediv v (rnd (pow10 d))))"

text \<open>
  The \<^verbatim>\<open>try\<close> block that tracks the value per token symbol. The dict \<^verbatim>\<open>token_values\<close> is
  never read, so only the outcome of the block is kept: \<open>Inr ()\<close> when it completes or its
  ValueError is caught, \<open>Inl e\<close> when \<open>e\<close> escapes.
\<close>

definition track_value :: "tx \<Rightarrow> exn + unit" where
  "track_value tx =
     (case field_int tx ''tokenDecimal'' 18 of
        None \<Rightarrow> Inr ()
      | Some decimals \<Rightarrow>
          (case field_float tx ''value'' of
             None \<Rightarrow> Inr ()
           | Some v \<Rightarrow>
               (case divide_by_pow10 v decimals of Inl e \<Rightarrow> Inl e | Inr _ \<Rightarrow> Inr ())))"

fun concentration_loop :: "tx list \<Rightarrow> string set \<Rightarrow> exn + string set" where
  "concentration_loop [] unique_tokens = Inr unique_tokens"
| "concentration_loop (tx # rest) unique_tokens =
     (let token_addr = lower (get_str tx ''contractAddress'' '''') in
      case track_value tx of
        Inl e \<Rightarrow> Inl e
      | Inr _ \<Rightarrow> concentration_loop rest (insert token_addr unique_tokens))"

definition calculate_concentration_risk :: "tx list \<Rightarrow> exn + pyfloat" where
  "calculate_concentration_risk token_transactions =
     (if token_transactions = [] then Inr (Fin 600)
      else case concentration_loop token_transactions {} of
             Inl e \<Rightarrow> Inl e
           | Inr unique_tokens \<Rightarrow>
               let num_tokens = card unique_tokens in
               if num_tokens = 0 then Inr (Fin 800)
               else if num_tokens = 1 then Inr (Fin 700)
               else if num_tokens \<le> 3 then Inr (Fin 400)
               else Inr (Fin 200))"

subsection \<open>Leverage risk\<close>

definition leverage_step :: "tx \<Rightarrow> nat \<times> nat \<Rightarrow> nat \<times> nat" where
  "leverage_step tx counts =
     (case counts of (leverage_indicators, total_functions) \<Rightarrow>
        let func_name = lower (get_str tx ''functionName'' '''') in
        if func_name \<noteq> []
        then (if list_ex (\<lambda>risky. py_in risky func_name)
                   [''borrow'', ''repay'', ''liquidate'', ''redeem'']
              then leverage_indicators + 1 else leverage_indicators,
              total_functions + 1)
        else (leverage_indicators, total_functions))"

definition calculate_leverage_risk :: "tx list \<Rightarrow> exn + pyfloat" where
  "calculate_leverage_risk transactions =
     (if transactions = [] then Inr (Fin 300)
      else
        let (leverage_indicators, total_functions) =
               foldl (\<lambda>counts tx. leverage_step tx counts) (0, 0) transactions
        in if total_functions = 0 then Inr (Fin 400)
           else case int_truediv (int leverage_indicators) (int total_functions) of
                  Inl e \<Rightarrow> Inl e
                | Inr leverage_ratio \<Rightarrow>
                    Inr (pymin (fmul leverage_ratio (Fin 800)) (Fin 1000)))"

subsection \<open>Behavioral risk\<close>

definition timestamp_step :: "tx \<Rightarrow> int list \<Rightarrow> int list" where
  "timestamp_step tx timestamps =
     (case field_int tx ''timeStamp'' 0 of
        None \<Rightarrow> timestamps
      | Some timestamp \<Rightarrow> if 0 < timestamp then timestamps @ [timestamp] else timestamps)"

fun rapid_count :: "int list \<Rightarrow> nat" where
  "rapid_count (a # b # rest) = (if b - a < 60 then 1 else 0) + rapid_count (b # rest)"
| "rapid_count _ = 0"

definition is_failed :: "tx \<Rightarrow> bool" where
  "is_failed tx = (get_str tx ''isError'' ''0'' = ''1'')"

definition is_large :: "tx \<Rightarrow> bool" where
  "is_large tx =
     (case field_float tx ''value'' of
        None \<Rightarrow> False
      | Some v \<Rightarrow> flt (Fin 1000) (fdiv v (float_lit (10 ^ 18))))"

definition calculate_behavioral_risk :: "tx list \<Rightarrow> tx list \<Rightarrow> exn + pyfloat" where
  "calculate_behavioral_risk transactions token_transactions =
     (let all_txs = transactions @ token_transactions in
      if all_txs = [] then Inr (Fin 400)
      else
        let timestamps = sort (foldl (\<lambda>ts tx. timestamp_step tx ts) [] all_txs);
            rapid_tx_count = rapid_count timestamps;
            risk_flags = (if 10 < rapid_tx_count then 1 else 0);
            failed_count = length (filter is_failed transactions);
            risk_flags =
              (if 0 < length transactions \<and>
                  flt (fmul (float_of_len (length transactions)) (float_lit (1 / 10)))
                      (Fin (of_nat failed_count))
               then risk_flags + 1 else risk_flags);
            large_tx_count = length (filter is_large transactions);
            risk_flags = (if 5 < large_tx_count then risk_flags + 1 else risk_flags)
        in Inr (Fin (of_int (min (risk_flags * 200) 1000))))"

section \<open>The scorer object, the aggregation and the batch\<close>

text \<open>
  \<^verbatim>\<open>__init__\<close> stores the API key and the dict \<^verbatim>\<open>risk_weights\<close>; its five keys are the
  fields of \<open>weights\<close>. The table of contract addresses is used by the two fetch methods
  only.
\<close>

record weights =
  w_liquidation_risk :: pyfloat
  w_volatility_risk :: pyfloat
  w_concentration_risk :: pyfloat
  w_leverage_risk :: pyfloat
  w_behavioral_risk :: pyfloat

record scorer =
  api_key :: "string option"
  risk_weights :: weights

definition init :: "string option \<Rightarrow> scorer" where
  "init key =
     \<lparr>api_key = key,
      risk_weights =
        \<lparr>w_liquidation_risk = float_lit (30 / 100),
         w_volatility_risk = float_lit (25 / 100),
         w_concentration_risk = float_lit (20 / 100),
         w_leverage_risk = float_lit (15 / 100),
         w_behavioral_risk = float_lit (10 / 100)\<rparr>\<rparr>"

text \<open>
  The weighted final score of \<^verbatim>\<open>calculate_wallet_risk_score\<close>: the sum of the five products,
  added from left to right, then \<^verbatim>\<open>max(0, min(1000, round(final_score)))\<close>.
\<close>

definition weighted_final_score ::
  "scorer \<Rightarrow> pyfloat \<Rightarrow> pyfloat \<Rightarrow> pyfloat \<Rightarrow> pyfloat \<Rightarrow> pyfloat \<Rightarrow> exn + int" where
  "weighted_final_score self liquidation_risk volatility_risk concentration_risk
       leverage_risk behavioral_risk =
     (let w = risk_weights self;
          final_score =
            fadd (fadd (fadd (fadd (fmul liquidation_risk (w_liquidation_risk w))
                                   (fmul volatility_risk (w_volatility_risk w)))
                             (fmul concentration_risk (w_concentration_risk w)))
                       (fmul leverage_risk (w_leverage_risk w)))
                 (fmul behavioral_risk (w_behavioral_risk w))
      in case py_round final_score of
           Inl e \<Rightarrow> Inl e
         | Inr r \<Rightarrow> Inr (max 0 (min 1000 r)))"

record breakdown =
  bd_liquidation_risk :: pyfloat
  bd_volatility_risk :: pyfloat
  bd_concentration_risk :: pyfloat
  bd_leverage_risk :: pyfloat
  bd_behavioral_risk :: pyfloat
  bd_final_score :: int
  bd_tx_count :: nat
  bd_token_tx_count :: nat

text \<open>
  The two fetch methods query the block explorer and catch every exception themselves
  (they return the empty list then): they are parameters that map an address to a list of
  transactions. The pause and the console output are left out here; the section on the
  effects of the scoring has them. Four of the sub-scores are Python ints or floats, which
  \<^verbatim>\<open>round(x, 1)\<close> rounds as Python does; the volatility may be a numpy scalar.
\<close>

definition calculate_wallet_risk_score ::
  "scorer \<Rightarrow> numpy \<Rightarrow> (string \<Rightarrow> tx list) \<Rightarrow> (string \<Rightarrow> tx list) \<Rightarrow> string
     \<Rightarrow> exn + (int \<times> breakdown)" where
  "calculate_wallet_risk_score self np get_wallet_transactions get_wallet_token_transactions
       wallet_address =
     (let transactions = get_wallet_transactions wallet_address;
          token_transactions = get_wallet_token_transactions wallet_address
      in case calculate_liquidation_risk transactions token_transactions of
           Inl e \<Rightarrow> Inl e
         | Inr liquidation_risk \<Rightarrow>
       (case calculate_volatility_risk_typed np transactions of
           Inl e \<Rightarrow> Inl e
         | Inr volatility_risk \<Rightarrow>
       (case calculate_concentration_risk token_transactions of
           Inl e \<Rightarrow> Inl e
         | Inr concentration_risk \<Rightarrow>
       (case calculate_leverage_risk transactions of
           Inl e \<Rightarrow> Inl e
         | Inr leverage_risk \<Rightarrow>
       (case calculate_behavioral_risk transactions token_transactions of
           Inl e \<Rightarrow> Inl e
         | Inr behavioral_risk \<Rightarrow>
       (case weighted_final_score self liquidation_risk (num_value volatility_risk)
               concentration_risk leverage_risk behavioral_risk of
           Inl e \<Rightarrow> Inl e
         | Inr final_score \<Rightarrow>
             Inr (final_score,
                  \<lparr>bd_liquidation_risk = py_round1 liquidation_risk,
                   bd_volatility_risk = round1 volatility_risk,
                   bd_concentration_risk = py_round1 concentration_risk,
                   bd_leverage_risk = py_round1 leverage_risk,
                   bd_behavioral_risk = py_round1 behavioral_risk,
                   bd_final_score = final_score,
                   bd_tx_count = length transactions,
                   bd_token_tx_count = length token_transactions\<rparr>)))))))"

record wallet_result =
  wallet_id :: string
  score :: int
  res_liquidation_risk :: pyfloat
  res_volatility_risk :: pyfloat
  res_concentration_risk :: pyfloat
  res_leverage_risk :: pyfloat
  res_behavioral_risk :: pyfloat
  res_tx_count :: nat
  res_token_tx_count :: nat

text \<open>The row that the \<^verbatim>\<open>except Exception\<close> clause of the batch appends.\<close>

definition failed_wallet_result :: "string \<Rightarrow> wallet_result" where
  "failed_wallet_result wallet =
     \<lparr>wallet_id = wallet, score = 500,
      res_liquidation_risk = Fin 500, res_volatility_risk = Fin 500,
      res_concentration_risk = Fin 500, res_leverage_risk = Fin 500,
      res_behavioral_risk = Fin 500, res_tx_count = 0, res_token_tx_count = 0\<rparr>"

definition scored_wallet_result :: "string \<Rightarrow> int \<Rightarrow> breakdown \<Rightarrow> wallet_result" where
  "scored_wallet_result wallet sc bd =
     \<lparr>wallet_id = wallet, score = sc,
      res_liquidation_risk = bd_liquidation_risk bd,
      res_volatility_risk = bd_volatility_risk bd,
      res_concentration_risk = bd_concentration_risk bd,
      res_leverage_risk = bd_leverage_risk bd,
      res_behavioral_risk = bd_behavioral_risk bd,
      res_tx_count = bd_tx_count bd, res_token_tx_count = bd_token_tx_count bd\<rparr>"

text \<open>One iteration of the loop of \<^verbatim>\<open>score_wallet_list\<close>, and the loop.\<close>

definition score_wallet_step ::
  "scorer \<Rightarrow> numpy \<Rightarrow> (string \<Rightarrow> tx list) \<Rightarrow> (string \<Rightarrow> tx list)
     \<Rightarrow> wallet_result list \<Rightarrow> string \<Rightarrow> wallet_result list" where
  "score_wallet_step self np get_wallet_transactions get_wallet_token_transactions results wallet =
     (case calculate_wallet_risk_score self np get_wallet_transactions
             get_wallet_token_transactions wallet of
        Inr (sc, bd) \<Rightarrow> results @ [scored_wallet_result wallet sc bd]
      | Inl e \<Rightarrow> results @ [failed_wallet_result wallet])"

definition score_wallet_list ::
  "scorer \<Rightarrow> numpy \<Rightarrow> (string \<Rightarrow> tx list) \<Rightarrow> (string \<Rightarrow> tx list)
     \<Rightarrow> string list \<Rightarrow> wallet_result list" where
  "score_wallet_list self np get_wallet_transactions get_wallet_token_transactions
       wallet_addresses =
     foldl (score_wallet_step self np get_wallet_transactions get_wallet_token_transactions)
       [] wallet_addresses"

section \<open>The statements of the specification\<close>

text \<open>
  The definitions of this section follow the words of the specification, not the code;
  the theorems below compare the two.
\<close>

subsection \<open>Score range\<close>




subsection \<open>Weighted aggregator\<close>




subsection \<open>Liquidation risk\<close>





subsection \<open>Behavioral risk\<close>

definition valid_timestamps :: "tx list \<Rightarrow> int list" where
  "valid_timestamps txs =
     filter (\<lambda>t. 0 < t) (List.map_filter (\<lambda>tx. field_int tx ''timeStamp'' 0) txs)"

definition adjacent_gaps_under :: "int \<Rightarrow> int list \<Rightarrow> nat" where
  "adjacent_gaps_under g ts = length (filter (\<lambda>(a, b). b - a < g) (zip ts (tl ts)))"

definition flag_rapid :: "tx list \<Rightarrow> tx list \<Rightarrow> bool" where
  "flag_rapid transactions token_transactions =
     (10 < adjacent_gaps_under 60 (sort (valid_timestamps (transactions @ token_transactions))))"

definition flag_failed :: "tx list \<Rightarrow> bool" where
  "flag_failed transactions =
     (0 < length transactions \<and>
      flt (fmul (float_of_len (length transactions)) (float_lit (1 / 10)))
          (Fin (of_nat (length (filter is_failed transactions)))))"

definition flag_large :: "tx list \<Rightarrow> bool" where
  "flag_large transactions = (5 < length (filter is_large transactions))"

definition flags_triggered :: "tx list \<Rightarrow> tx list \<Rightarrow> nat" where
  "flags_triggered transactions token_transactions =
     length (filter id [flag_rapid transactions token_transactions,
                        flag_failed transactions, flag_large transactions])"

subsection \<open>Concentration risk\<close>




subsection \<open>Batch\<close>

text \<open>The row that the batch holds for one wallet: scored, or the uniform degraded row.\<close>

definition wallet_row ::
  "scorer \<Rightarrow> numpy \<Rightarrow> (string \<Rightarrow> tx list) \<Rightarrow> (string \<Rightarrow> tx list) \<Rightarrow> string \<Rightarrow> wallet_result" where
  "wallet_row self np get_wallet_transactions get_wallet_token_transactions wallet =
     (case calculate_wallet_risk_score self np get_wallet_transactions
             get_wallet_token_transactions wallet of
        Inl e \<Rightarrow> failed_wallet_result wallet
      | Inr (sc, bd) \<Rightarrow> scored_wallet_result wallet sc bd)"

text \<open>A stand-in for numpy in closed examples that never reach the statistics.\<close>

definition np_unused :: numpy where
  "np_unused = \<lparr>np_mean = (\<lambda>xs. NaN), np_std = (\<lambda>xs. NaN),
                 np_diff_mean = (\<lambda>xs. Inr NaN), np_diff_std = (\<lambda>xs. Inr NaN)\<rparr>"

text \<open>A token transfer whose decimals make \<^verbatim>\<open>10 ** decimals\<close> too large for a float.\<close>

definition overflow_token :: tx where
  "overflow_token = [''contractAddress'' \<mapsto> ''0xabc'', ''tokenDecimal'' \<mapsto> ''400'', ''value'' \<mapsto> ''1'']"

text \<open>
  A failed transfer of 2000 units of the native currency, used in a list of twelve with
  the same time stamp: all three behavioral flags hold for that list.
\<close>

definition whale_tx :: tx where
  "whale_tx = [''timeStamp'' \<mapsto> ''100'', ''value'' \<mapsto> ''2000000000000000000000'',
               ''isError'' \<mapsto> ''1'']"


section \<open>Properties of rounding\<close>

lemma pow2_powi: "pow2 e = 2 powi e"
  by (simp add: pow2_def power_int_def field_simps)

lemma pow2_pos: "0 < pow2 e"
  by (simp add: pow2_powi)

lemma pow2_add: "pow2 (a + b) = pow2 a * pow2 b"
  by (simp add: pow2_powi power_int_add)

lemma pow2_mono: "a \<le> b \<Longrightarrow> pow2 a \<le> pow2 b"
  by (simp add: pow2_powi power_int_increasing)

lemma pow2_less_cancel: "pow2 a < pow2 b \<Longrightarrow> a < b"
  using pow2_mono [of b a] by (cases "a < b") auto

lemma pow2_nat: "pow2 (int n) = 2 ^ n"
  by (simp add: pow2_def)

lemma pow2_of_int: "0 \<le> k \<Longrightarrow> pow2 k = of_int (2 ^ nat k)"
  by (simp add: pow2_def)

lemma ilog2_bounds:
  assumes "0 < x"
  shows "pow2 (ilog2 x) \<le> x \<and> x < pow2 (ilog2 x + 1)"
proof -
  obtain p q where pq: "quotient_of x = (p, q)" by (cases "quotient_of x")
  have q: "0 < q" using pq quotient_of_denom_pos by blast
  have x: "x = of_int p / of_int q" using pq quotient_of_div by blast
  have p: "0 < p" using assms q x by (simp add: zero_less_divide_iff)
  define bp where "bp = floorlog 2 (nat p)"
  define bq where "bq = floorlog 2 (nat q)"
  define d where "d = int bp - int bq"
  have Bp: "2 ^ (bp - 1) \<le> nat p \<and> nat p < 2 ^ bp"
    unfolding bp_def using floorlog_bounds [of "nat p" 2] p by simp
  have Bq: "2 ^ (bq - 1) \<le> nat q \<and> nat q < 2 ^ bq"
    unfolding bq_def using floorlog_bounds [of "nat q" 2] q by simp
  have bp1: "1 \<le> bp" using Bp p by (cases bp) auto
  have bq1: "1 \<le> bq" using Bq q by (cases bq) auto
  have rp: "(2::rat) ^ (bp - 1) \<le> of_int p \<and> (of_int p :: rat) < 2 ^ bp"
  proof -
    have "of_nat (2 ^ (bp - 1)) \<le> (of_nat (nat p) :: rat) \<and>
          (of_nat (nat p) :: rat) < of_nat (2 ^ bp)"
      using Bp by (simp only: of_nat_le_iff of_nat_less_iff)
    then show ?thesis using p by simp
  qed
  have rq: "(2::rat) ^ (bq - 1) \<le> of_int q \<and> (of_int q :: rat) < 2 ^ bq"
  proof -
    have "of_nat (2 ^ (bq - 1)) \<le> (of_nat (nat q) :: rat) \<and>
          (of_nat (nat q) :: rat) < of_nat (2 ^ bq)"
      using Bq by (simp only: of_nat_le_iff of_nat_less_iff)
    then show ?thesis using q by simp
  qed
  have qpos: "(0::rat) < of_int q" using q by simp
  have up: "x < pow2 (d + 1)"
  proof -
    have "pow2 (d + 1) * pow2 (int (bq - 1)) = pow2 (int bp)"
      unfolding d_def using bq1 by (simp flip: pow2_add add: of_nat_diff)
    then have e: "pow2 (d + 1) * 2 ^ (bq - 1) = 2 ^ bp" by (simp add: pow2_nat)
    have "of_int p < pow2 (d + 1) * 2 ^ (bq - 1)" using rp e by simp
    also have "\<dots> \<le> pow2 (d + 1) * of_int q"
      using rq pow2_pos [of "d + 1"] by (simp add: mult_left_mono)
    finally show ?thesis using qpos by (simp add: x pos_divide_less_eq)
  qed
  have lo: "pow2 (d - 1) < x"
  proof -
    have "pow2 (d - 1) * pow2 (int bq) = pow2 (int (bp - 1))"
      unfolding d_def using bp1 by (simp flip: pow2_add add: of_nat_diff)
    then have e: "pow2 (d - 1) * 2 ^ bq = 2 ^ (bp - 1)" by (simp add: pow2_nat)
    have "pow2 (d - 1) * of_int q < pow2 (d - 1) * 2 ^ bq"
      using rq pow2_pos [of "d - 1"] by (simp add: mult_strict_left_mono)
    also have "\<dots> \<le> of_int p" using rp e by simp
    finally show ?thesis using qpos by (simp add: x pos_less_divide_eq)
  qed
  have il: "ilog2 x = (if pow2 d \<le> x then d else d - 1)"
    by (simp add: ilog2_def pq bp_def bq_def d_def Let_def)
  show ?thesis
  proof (cases "pow2 d \<le> x")
    case True
    then show ?thesis using il up by simp
  next
    case False
    then show ?thesis using il lo by simp
  qed
qed

lemma ilog2_unique:
  assumes "0 < x" "pow2 e \<le> x" "x < pow2 (e + 1)"
  shows "ilog2 x = e"
proof -
  have b: "pow2 (ilog2 x) \<le> x \<and> x < pow2 (ilog2 x + 1)"
    using ilog2_bounds [OF assms(1)] .
  have "pow2 e < pow2 (ilog2 x + 1)" using assms(2) b by simp
  then have 1: "e < ilog2 x + 1" by (rule pow2_less_cancel)
  have "pow2 (ilog2 x) < pow2 (e + 1)" using assms(3) b by simp
  then have 2: "ilog2 x < e + 1" by (rule pow2_less_cancel)
  show ?thesis using 1 2 by simp
qed

lemma ilog2_mono:
  assumes "0 < x" "x \<le> y"
  shows "ilog2 x \<le> ilog2 y"
proof -
  have "pow2 (ilog2 x) \<le> x" using ilog2_bounds [OF assms(1)] by simp
  also have "x \<le> y" by fact
  also have "y < pow2 (ilog2 y + 1)" using ilog2_bounds [of y] assms by simp
  finally have "ilog2 x < ilog2 y + 1" by (rule pow2_less_cancel)
  then show ?thesis by simp
qed

lemma rhe_of_int: "rhe (of_int n) = n"
  by (simp add: rhe_def)

lemma rhe_floor_cases: "rhe q = \<lfloor>q\<rfloor> \<or> rhe q = \<lfloor>q\<rfloor> + 1"
  by (simp add: rhe_def Let_def)

lemma rhe_mono:
  assumes "a \<le> b"
  shows "rhe a \<le> rhe b"
proof (cases "\<lfloor>a\<rfloor> = \<lfloor>b\<rfloor>")
  case True
  have "a - of_int \<lfloor>a\<rfloor> \<le> b - of_int \<lfloor>a\<rfloor>" using assms by simp
  then show ?thesis using True by (auto simp: rhe_def Let_def)
next
  case False
  then have "\<lfloor>a\<rfloor> < \<lfloor>b\<rfloor>" using floor_mono [OF assms] by simp
  then have "\<lfloor>a\<rfloor> + 1 \<le> \<lfloor>b\<rfloor>" by simp
  moreover have "rhe a \<le> \<lfloor>a\<rfloor> + 1" using rhe_floor_cases [of a] by auto
  moreover have "\<lfloor>b\<rfloor> \<le> rhe b" using rhe_floor_cases [of b] by auto
  ultimately show ?thesis by simp
qed

lemma rhe_nonneg: "0 \<le> q \<Longrightarrow> 0 \<le> rhe q"
  using rhe_mono [of 0 q] rhe_of_int [of 0] by simp

lemma round_mag_uexp: "round_mag x = of_int (rhe (x / pow2 (uexp x))) * pow2 (uexp x)"
  by (simp add: round_mag_def Let_def)

lemma round_mag_nonneg: "0 \<le> x \<Longrightarrow> 0 \<le> round_mag x"
  using pow2_pos [of "uexp x"] by (simp add: round_mag_uexp rhe_nonneg less_imp_le)

lemma round_mag_exact:
  assumes "0 < m" "m < 2 ^ 53" "- 1074 \<le> k"
  shows "round_mag (of_int m * pow2 k) = of_int m * pow2 k"
proof -
  define x where "x = of_int m * pow2 k"
  have xpos: "0 < x" using assms(1) pow2_pos [of k] by (simp add: x_def)
  have "x < 2 ^ 53 * pow2 k"
  proof -
    have "(of_int m :: rat) < of_int (2 ^ 53)" using assms(2) by (simp only: of_int_less_iff)
    then show ?thesis using pow2_pos [of k] by (simp add: x_def)
  qed
  moreover have "pow2 53 = 2 ^ 53" by (simp add: pow2_def)
  ultimately have "x < pow2 (53 + k)" by (simp add: pow2_add)
  moreover have "pow2 (ilog2 x) \<le> x" using ilog2_bounds [OF xpos] by simp
  ultimately have "pow2 (ilog2 x) < pow2 (53 + k)" by simp
  then have "ilog2 x < 53 + k" by (rule pow2_less_cancel)
  then have u: "uexp x \<le> k" using assms(3) by (simp add: uexp_def)
  define w where "w = uexp x"
  define j where "j = k - w"
  have j: "0 \<le> j" using u by (simp add: j_def w_def)
  have kj: "pow2 k = pow2 j * pow2 w" by (simp add: j_def flip: pow2_add)
  have wpos: "0 < pow2 w" by (rule pow2_pos)
  have "x = (of_int m * pow2 j) * pow2 w" by (simp add: x_def kj)
  then have "x / pow2 w = of_int m * pow2 j" using wpos by simp
  also have "\<dots> = of_int (m * 2 ^ nat j)" using j by (simp add: pow2_of_int)
  finally have "rhe (x / pow2 w) = m * 2 ^ nat j" by (simp only: rhe_of_int)
  then have "round_mag x = of_int (m * 2 ^ nat j) * pow2 w"
    by (simp only: round_mag_uexp w_def)
  also have "\<dots> = of_int m * (pow2 j * pow2 w)" using j by (simp add: pow2_of_int)
  also have "\<dots> = x" by (simp add: x_def kj)
  finally show ?thesis by (simp add: x_def)
qed

lemma round_mag_le_pow2:
  assumes "0 < x" "x \<le> pow2 e" "uexp x \<le> e"
  shows "round_mag x \<le> pow2 e"
proof -
  define j where "j = e - uexp x"
  have j: "0 \<le> j" using assms(3) by (simp add: j_def)
  have e: "pow2 e = pow2 j * pow2 (uexp x)" by (simp add: j_def flip: pow2_add)
  have "x / pow2 (uexp x) \<le> pow2 e / pow2 (uexp x)"
    using assms(2) pow2_pos [of "uexp x"] by (simp add: divide_right_mono)
  also have "\<dots> = of_int (2 ^ nat j)"
    using j e pow2_pos [of "uexp x"] by (simp add: pow2_of_int)
  finally have "rhe (x / pow2 (uexp x)) \<le> rhe (of_int (2 ^ nat j))" by (rule rhe_mono)
  then have "rhe (x / pow2 (uexp x)) \<le> 2 ^ nat j" by (simp only: rhe_of_int)
  then have "(of_int (rhe (x / pow2 (uexp x))) :: rat) \<le> of_int (2 ^ nat j)"
    by (simp only: of_int_le_iff)
  then have "round_mag x \<le> of_int (2 ^ nat j) * pow2 (uexp x)"
    using pow2_pos [of "uexp x"] by (simp only: round_mag_uexp mult_le_cancel_right_pos)
  also have "\<dots> = pow2 e" using j by (simp add: e pow2_of_int)
  finally show ?thesis .
qed

lemma round_mag_ge_pow2:
  assumes "0 < x" "pow2 e \<le> x" "uexp x \<le> e"
  shows "pow2 e \<le> round_mag x"
proof -
  define j where "j = e - uexp x"
  have j: "0 \<le> j" using assms(3) by (simp add: j_def)
  have e: "pow2 e = pow2 j * pow2 (uexp x)" by (simp add: j_def flip: pow2_add)
  have "of_int (2 ^ nat j) = pow2 e / pow2 (uexp x)"
    using j e pow2_pos [of "uexp x"] by (simp add: pow2_of_int)
  also have "\<dots> \<le> x / pow2 (uexp x)"
    using assms(2) pow2_pos [of "uexp x"] by (simp add: divide_right_mono)
  finally have "rhe (of_int (2 ^ nat j)) \<le> rhe (x / pow2 (uexp x))" by (rule rhe_mono)
  then have "2 ^ nat j \<le> rhe (x / pow2 (uexp x))" by (simp only: rhe_of_int)
  then have "(of_int (2 ^ nat j) :: rat) \<le> of_int (rhe (x / pow2 (uexp x)))"
    by (simp only: of_int_le_iff)
  then have "of_int (2 ^ nat j) * pow2 (uexp x) \<le> round_mag x"
    using pow2_pos [of "uexp x"] by (simp only: round_mag_uexp mult_le_cancel_right_pos)
  then show ?thesis using j by (simp add: e pow2_of_int)
qed

lemma round_mag_mono:
  assumes "0 < x" "x \<le> y"
  shows "round_mag x \<le> round_mag y"
proof (cases "uexp x = uexp y")
  case True
  have "x / pow2 (uexp y) \<le> y / pow2 (uexp y)"
    using assms(2) pow2_pos [of "uexp y"] by (simp add: divide_right_mono)
  then have "rhe (x / pow2 (uexp y)) \<le> rhe (y / pow2 (uexp y))" by (rule rhe_mono)
  then have "(of_int (rhe (x / pow2 (uexp y))) :: rat) \<le> of_int (rhe (y / pow2 (uexp y)))"
    by (simp only: of_int_le_iff)
  then show ?thesis
    using pow2_pos [of "uexp y"] by (simp only: round_mag_uexp True mult_le_cancel_right_pos)
next
  case False
  have ypos: "0 < y" using assms by simp
  have il: "ilog2 x \<le> ilog2 y" using ilog2_mono [OF assms] .
  then have "uexp x \<le> uexp y" by (simp add: uexp_def)
  then have lt: "uexp x < uexp y" using False by simp
  then have big: "- 1022 < ilog2 y" "ilog2 x < ilog2 y" by (auto simp: uexp_def)
  define k where "k = ilog2 y"
  have "x < pow2 (ilog2 x + 1)" using ilog2_bounds [OF assms(1)] by simp
  also have "\<dots> \<le> pow2 k" using big(2) by (simp add: k_def pow2_mono)
  finally have xk: "x \<le> pow2 k" by simp
  have ky: "pow2 k \<le> y" using ilog2_bounds [OF ypos] by (simp add: k_def)
  have uy: "uexp y \<le> k" using big(1) by (simp add: uexp_def k_def)
  then have 1: "pow2 k \<le> round_mag y" using round_mag_ge_pow2 [OF ypos ky] by simp
  have "uexp x \<le> k" using lt uy by simp
  then have 2: "round_mag x \<le> pow2 k" using round_mag_le_pow2 [OF assms(1) xk] by simp
  show ?thesis using 1 2 by simp
qed

lemma rnd_zero: "rnd 0 = Fin 0"
  by (simp add: rnd_def)

lemma rnd_pos: "0 < x \<Longrightarrow> rnd x = (if 2 ^ 1024 \<le> round_mag x then PInf else Fin (round_mag x))"
  by (simp add: rnd_def Let_def)

lemma rnd_exact:
  assumes "0 < m" "m < 2 ^ 53" "- 1074 \<le> k" "of_int m * pow2 k < 2 ^ 1024"
  shows "rnd (of_int m * pow2 k) = Fin (of_int m * pow2 k)"
proof -
  have "0 < of_int m * pow2 k" using assms(1) pow2_pos [of k] by simp
  then show ?thesis using assms(4) by (simp add: rnd_pos round_mag_exact [OF assms(1-3)])
qed

lemma rnd_of_nat:
  assumes "n < 2 ^ 53"
  shows "rnd (of_nat n) = Fin (of_nat n)"
proof (cases "n = 0")
  case True
  then show ?thesis by (simp add: rnd_zero)
next
  case False
  have m: "0 < int n" "int n < 2 ^ 53" using False assms by simp_all
  have "(of_int (int n) :: rat) < of_int (2 ^ 53)" using m(2) by (simp only: of_int_less_iff)
  then have "(of_int (int n) :: rat) * pow2 0 < 2 ^ 1024" by (simp add: pow2_def)
  then have "rnd (of_int (int n) * pow2 0) = Fin (of_int (int n) * pow2 0)"
    using rnd_exact [OF m] by simp
  then show ?thesis by (simp add: pow2_def)
qed

lemma rnd_bounded:
  assumes "0 \<le> x" "x \<le> c" "rnd c = Fin c"
  shows "\<exists>q. rnd x = Fin q \<and> 0 \<le> q \<and> q \<le> c"
proof (cases "x = 0")
  case True
  then show ?thesis using assms by (simp add: rnd_zero)
next
  case False
  then have xpos: "0 < x" using assms(1) by simp
  then have cpos: "0 < c" using assms(2) by simp
  have c: "round_mag c = c \<and> round_mag c < 2 ^ 1024"
    using assms(3) cpos by (simp add: rnd_pos split: if_splits)
  have "round_mag x \<le> round_mag c" using round_mag_mono [OF xpos assms(2)] .
  then have le: "round_mag x \<le> c" "round_mag x < 2 ^ 1024" using c by simp_all
  have "0 \<le> round_mag x" using xpos by (simp add: round_mag_nonneg)
  then show ?thesis using le xpos by (simp add: rnd_pos)
qed



lemma rnd_eval:
  assumes "0 < x" "- 1022 \<le> e" "pow2 e \<le> x" "x < pow2 (e + 1)"
    and "y = of_int (rhe (x / pow2 (e - 52))) * pow2 (e - 52)" "y < 2 ^ 1024"
  shows "rnd x = Fin y"
proof -
  have "ilog2 x = e" using ilog2_unique [OF assms(1,3,4)] .
  then have "uexp x = e - 52" using assms(2) by (simp add: uexp_def)
  then have "round_mag x = y" using assms(5) by (simp add: round_mag_uexp)
  then show ?thesis using assms(1,6) by (simp add: rnd_pos)
qed

lemma rnd_underflow:
  assumes "0 < x" "x < pow2 (- 1075)"
  shows "rnd x = Fin 0"
proof -
  have "pow2 (ilog2 x) \<le> x" using ilog2_bounds [OF assms(1)] by simp
  then have "pow2 (ilog2 x) < pow2 (- 1075)" using assms(2) by simp
  then have "ilog2 x < - 1075" by (rule pow2_less_cancel)
  then have u: "uexp x = - 1074" by (simp add: uexp_def)
  have "pow2 (- 1075) = 1 / 2 * pow2 (- 1074)"
    using pow2_add [of "- 1" "- 1074"] by (simp add: pow2_def)
  then have "x < 1 / 2 * pow2 (- 1074)" using assms(2) by simp
  then have hi: "x / pow2 (- 1074) < 1 / 2"
    using pow2_pos [of "- 1074"] by (simp add: pos_divide_less_eq)
  have lo: "0 \<le> x / pow2 (- 1074)" using assms(1) pow2_pos [of "- 1074"] by simp
  define t where "t = x / pow2 (- 1074)"
  have t: "0 \<le> t" "t < 1 / 2" using hi lo by (simp_all only: t_def)
  have "\<lfloor>t\<rfloor> = 0"
  proof (rule floor_unique)
    show "of_int 0 \<le> t" using t(1) by simp
    show "t < of_int 0 + 1" using t(2) by linarith
  qed
  then have "rhe t = 0" using t by (simp add: rhe_def Let_def)
  then have "rhe (x / pow2 (- 1074)) = 0" by (simp only: t_def)
  then have "round_mag x = 0" using u by (simp add: round_mag_uexp)
  then show ?thesis using assms(1) by (simp add: rnd_pos)
qed

section \<open>Leverage risk: the defaults\<close>

lemma lower_Nil_iff: "lower s = [] \<longleftrightarrow> s = []"
  by (simp add: lower_def)

lemma leverage_fold_no_function_name:
  assumes "\<forall>tx \<in> set txs. get_str tx ''functionName'' '''' = ''''"
  shows "foldl (\<lambda>counts tx. leverage_step tx counts) (a, b) txs = (a, b)"
  using assms by (induction txs) (simp_all add: leverage_step_def lower_def)

text \<open>
  Claim C8. A non-empty list of normal transactions in which every entry has an empty
  function name (the key absent counts as empty, by the default of \<^verbatim>\<open>tx.get\<close>) gets the
  leverage risk 400, whatever its length; the empty list gets 300.
\<close>

theorem leverage_defaults:
  "calculate_leverage_risk [] = Inr (Fin 300) \<and>
   (txs \<noteq> [] \<and> (\<forall>tx \<in> set txs. get_str tx ''functionName'' '''' = '''')
      \<longrightarrow> calculate_leverage_risk txs = Inr (Fin 400))"
  by (simp add: calculate_leverage_risk_def leverage_fold_no_function_name)

theorem leverage_defaults_witness:
  "[[''functionName'' \<mapsto> '''', ''value'' \<mapsto> ''5''], Map.empty] \<noteq> [] \<and>
   list_all (\<lambda>tx. get_str tx ''functionName'' '''' = '''')
     [[''functionName'' \<mapsto> '''', ''value'' \<mapsto> ''5''], Map.empty] \<and>
   calculate_leverage_risk [[''functionName'' \<mapsto> '''', ''value'' \<mapsto> ''5''], Map.empty]
     = Inr (Fin 400)"
  using leverage_defaults [of "[[''functionName'' \<mapsto> '''', ''value'' \<mapsto> ''5''], Map.empty]"]
  by (simp add: get_str_def)

section \<open>Leverage risk: the bound\<close>

lemma rnd_numeral:
  assumes "(numeral n :: nat) < 2 ^ 53"
  shows "rnd (numeral n) = Fin (numeral n)"
  using rnd_of_nat [OF assms] by simp

lemma rnd_one: "rnd 1 = Fin 1"
  using rnd_of_nat [of 1] by simp

lemma pymin_Fin: "pymin (Fin a) (Fin b) = Fin (if b < a then b else a)"
  by (simp add: pymin_def)

lemma int_truediv_fraction:
  assumes "0 \<le> a" "a \<le> b" "0 < b"
  shows "\<exists>q. int_truediv a b = Inr (Fin q) \<and> 0 \<le> q \<and> q \<le> 1"
proof -
  have "0 \<le> (of_int a / of_int b :: rat)" using assms by simp
  moreover have "(of_int a / of_int b :: rat) \<le> 1" using assms by simp
  ultimately obtain q where "rnd (of_int a / of_int b) = Fin q" "0 \<le> q" "q \<le> 1"
    using rnd_bounded [OF _ _ rnd_one] by blast
  then show ?thesis using assms(3) by (simp add: int_truediv_def)
qed

lemma fmul_bounded:
  assumes "0 \<le> a" "a \<le> 1" "0 \<le> c" "rnd c = Fin c"
  shows "\<exists>q. fmul (Fin a) (Fin c) = Fin q \<and> 0 \<le> q \<and> q \<le> c"
proof -
  have "0 \<le> a * c" using assms by simp
  moreover have "a * c \<le> c" using assms by (simp add: mult_left_le_one_le)
  ultimately show ?thesis using rnd_bounded [OF _ _ assms(4)] by simp
qed

lemma leverage_fold_le:
  assumes "a \<le> b"
  shows "fst (foldl (\<lambda>counts tx. leverage_step tx counts) (a, b) txs)
           \<le> snd (foldl (\<lambda>counts tx. leverage_step tx counts) (a, b) txs)"
  using assms
proof (induction txs arbitrary: a b)
  case Nil
  then show ?case by simp
next
  case (Cons tx txs)
  obtain a' b' where s: "leverage_step tx (a, b) = (a', b')" by (cases "leverage_step tx (a, b)")
  then have "a' \<le> b'" using Cons.prems by (auto simp: leverage_step_def Let_def split: if_splits)
  then show ?case using Cons.IH [of a' b'] s by simp
qed

text \<open>
  Claim C10. The count of risky function calls never exceeds the count of identifiable
  ones, and the leverage risk is a number between 0 and 800 for every input list: the
  defaults 300 and 400, or 800 times a ratio of at most one.
\<close>

theorem leverage_at_most_800:
  "fst (foldl (\<lambda>counts tx. leverage_step tx counts) (0, 0) txs)
     \<le> snd (foldl (\<lambda>counts tx. leverage_step tx counts) (0, 0) txs) \<and>
   (\<exists>q. calculate_leverage_risk txs = Inr (Fin q) \<and> 0 \<le> q \<and> q \<le> 800)"
proof
  show le: "fst (foldl (\<lambda>counts tx. leverage_step tx counts) (0, 0) txs)
      \<le> snd (foldl (\<lambda>counts tx. leverage_step tx counts) (0, 0) txs)"
    by (rule leverage_fold_le) simp
  obtain risky total where f: "foldl (\<lambda>counts tx. leverage_step tx counts) (0, 0) txs = (risky, total)"
    by (cases "foldl (\<lambda>counts tx. leverage_step tx counts) (0, 0) txs")
  have rt: "risky \<le> total" using le f by simp
  show "\<exists>q. calculate_leverage_risk txs = Inr (Fin q) \<and> 0 \<le> q \<and> q \<le> 800"
  proof (cases "txs = [] \<or> total = 0")
    case True
    then show ?thesis using f by (auto simp: calculate_leverage_risk_def)
  next
    case False
    then have pos: "0 < int total" by simp
    obtain r where r: "int_truediv (int risky) (int total) = Inr (Fin r)" "0 \<le> r" "r \<le> 1"
      using int_truediv_fraction [of "int risky" "int total"] rt pos by auto
    have "rnd 800 = Fin 800" by (simp add: rnd_numeral)
    then obtain q where q: "fmul (Fin r) (Fin 800) = Fin q" "0 \<le> q" "q \<le> 800"
      using fmul_bounded [of r 800] r by auto
    have "calculate_leverage_risk txs = Inr (pymin (Fin q) (Fin 1000))"
      using False f r(1) q(1) by (simp add: calculate_leverage_risk_def)
    then show ?thesis using q by (simp add: pymin_Fin)
  qed
qed

section \<open>The constants of the scorer as binary64 values\<close>

lemma rhe_eval:
  assumes "of_int n - 1 / 2 < q" "q < of_int n + 1 / 2"
  shows "rhe q = n"
proof (cases "of_int n \<le> q")
  case True
  then have "\<lfloor>q\<rfloor> = n" using assms(2) by (intro floor_unique) linarith+
  then show ?thesis using assms(2) by (simp add: rhe_def Let_def)
next
  case False
  then have f: "\<lfloor>q\<rfloor> = n - 1" using assms(1) by (intro floor_unique) (simp, linarith)+
  have "1 / 2 < q - of_int (n - 1)" using assms(1) by simp
  then show ?thesis using f by (simp add: rhe_def Let_def)
qed

lemma lit_030: "float_lit (30 / 100) = Fin (5404319552844595 / 2 ^ 54)"
  unfolding float_lit_def
  by (rule rnd_eval [where e = "- 2"])
     (simp_all add: pow2_def rhe_eval [where n = 5404319552844595])

lemma lit_025: "float_lit (25 / 100) = Fin (1 / 4)"
  unfolding float_lit_def
  by (rule rnd_eval [where e = "- 2"])
     (simp_all add: pow2_def rhe_eval [where n = 4503599627370496])

lemma lit_020: "float_lit (20 / 100) = Fin (3602879701896397 / 2 ^ 54)"
  unfolding float_lit_def
  by (rule rnd_eval [where e = "- 3"])
     (simp_all add: pow2_def rhe_eval [where n = 7205759403792794])

lemma lit_015: "float_lit (15 / 100) = Fin (5404319552844595 / 2 ^ 55)"
  unfolding float_lit_def
  by (rule rnd_eval [where e = "- 3"])
     (simp_all add: pow2_def rhe_eval [where n = 5404319552844595])

lemma lit_010: "float_lit (10 / 100) = Fin (3602879701896397 / 2 ^ 55)"
  unfolding float_lit_def
  by (rule rnd_eval [where e = "- 4"])
     (simp_all add: pow2_def rhe_eval [where n = 7205759403792794])

lemma lit_half: "float_lit (1 / 2) = Fin (1 / 2)"
  unfolding float_lit_def
  by (rule rnd_eval [where e = "- 1"])
     (simp_all add: pow2_def rhe_eval [where n = 4503599627370496])

lemma weights_init:
  "risk_weights (init key) =
     \<lparr>w_liquidation_risk = Fin (5404319552844595 / 2 ^ 54),
      w_volatility_risk = Fin (1 / 4),
      w_concentration_risk = Fin (3602879701896397 / 2 ^ 54),
      w_leverage_risk = Fin (5404319552844595 / 2 ^ 55),
      w_behavioral_risk = Fin (3602879701896397 / 2 ^ 55)\<rparr>"
  by (simp only: init_def scorer.simps lit_030 lit_025 lit_020 lit_015 lit_010)

lemma py_round1_numeral:
  assumes "(numeral n :: nat) < 2 ^ 53"
  shows "py_round1 (Fin (numeral n)) = Fin (numeral n)"
proof -
  have "(numeral n :: rat) * 10 = of_int (numeral n * 10)" by simp
  then have "rhe (numeral n * 10) = numeral n * 10" by (simp only: rhe_of_int)
  then have "(of_int (rhe (numeral n * 10)) :: rat) = numeral n * 10" by simp
  then have e: "(of_int (rhe (numeral n * 10)) :: rat) / 10 = numeral n" by simp
  have "py_round1 (Fin (numeral n)) = rnd (of_int (rhe (numeral n * 10)) / 10)"
    by (simp only: py_round1_def pyfloat.simps)
  then show ?thesis by (simp only: e rnd_numeral [OF assms])
qed

section \<open>The empty-input scenario\<close>

lemma empty_products:
  "rnd (500 * (5404319552844595 / 2 ^ 54)) = Fin 150"
  "rnd (600 * (3602879701896397 / 2 ^ 54)) = Fin 120"
  "rnd (300 * (5404319552844595 / 2 ^ 55)) = Fin 45"
  "rnd (400 * (3602879701896397 / 2 ^ 55)) = Fin 40"
     apply (rule rnd_eval [where e = 7];
            simp add: pow2_def rhe_eval [where n = 5277655813324800])
    apply (rule rnd_eval [where e = 6];
           simp add: pow2_def rhe_eval [where n = 8444249301319680])
   apply (rule rnd_eval [where e = 5];
          simp add: pow2_def rhe_eval [where n = 6333186975989760])
  apply (rule rnd_eval [where e = 5];
         simp add: pow2_def rhe_eval [where n = 5629499534213120])
  done

lemma empty_final_score:
  "weighted_final_score (init key) (Fin 500) (Fin 300) (Fin 600) (Fin 300) (Fin 400) = Inr 430"
proof -
  define w where "w = risk_weights (init key)"
  have p1: "fmul (Fin 500) (w_liquidation_risk w) = Fin 150"
    by (simp only: w_def weights_init weights.simps fmul.simps empty_products)
  have p2: "fmul (Fin 300) (w_volatility_risk w) = Fin 75"
    by (simp add: w_def weights_init rnd_numeral)
  have p3: "fmul (Fin 600) (w_concentration_risk w) = Fin 120"
    by (simp only: w_def weights_init weights.simps fmul.simps empty_products)
  have p4: "fmul (Fin 300) (w_leverage_risk w) = Fin 45"
    by (simp only: w_def weights_init weights.simps fmul.simps empty_products)
  have p5: "fmul (Fin 400) (w_behavioral_risk w) = Fin 40"
    by (simp only: w_def weights_init weights.simps fmul.simps empty_products)
  have s: "fadd (fadd (fadd (fadd (Fin 150) (Fin 75)) (Fin 120)) (Fin 45)) (Fin 40) = Fin 430"
    by (simp add: rnd_numeral)
  have r: "rhe 430 = 430" using rhe_of_int [of 430] by simp
  have "weighted_final_score (init key) (Fin 500) (Fin 300) (Fin 600) (Fin 300) (Fin 400) =
        (case py_round (Fin 430) of Inl e \<Rightarrow> Inl e | Inr r \<Rightarrow> Inr (max 0 (min 1000 r)))"
    by (simp only: weighted_final_score_def Let_def w_def [symmetric] p1 p2 p3 p4 p5 s)
  then show ?thesis by (simp add: py_round_def r)
qed

text \<open>
  Claim C1. With no normal and no token transactions the five calculators return 500, 300,
  600, 300 and 400, the weighted sum of these rounds to 430, and the scoring of a wallet
  whose two histories are empty returns the composite 430 with that breakdown.
\<close>

theorem empty_input_scores:
  "calculate_liquidation_risk [] [] = Inr (Fin 500) \<and>
   calculate_volatility_risk np [] = Inr (Fin 300) \<and>
   calculate_concentration_risk [] = Inr (Fin 600) \<and>
   calculate_leverage_risk [] = Inr (Fin 300) \<and>
   calculate_behavioral_risk [] [] = Inr (Fin 400) \<and>
   weighted_final_score (init key) (Fin 500) (Fin 300) (Fin 600) (Fin 300) (Fin 400) = Inr 430 \<and>
   calculate_wallet_risk_score (init key) np (\<lambda>a. []) (\<lambda>a. []) wallet =
     Inr (430, \<lparr>bd_liquidation_risk = Fin 500, bd_volatility_risk = Fin 300,
               bd_concentration_risk = Fin 600, bd_leverage_risk = Fin 300,
               bd_behavioral_risk = Fin 400, bd_final_score = 430,
               bd_tx_count = 0, bd_token_tx_count = 0\<rparr>)"
  by (simp add: calculate_liquidation_risk_def calculate_volatility_risk_def calculate_volatility_risk_typed_def
      calculate_concentration_risk_def calculate_leverage_risk_def
      calculate_behavioral_risk_def calculate_wallet_risk_score_def empty_final_score
      py_round1_numeral)

section \<open>The weighted aggregator\<close>












section \<open>A token transfer that makes the concentration calculator raise\<close>

lemmas parse_defs =
  py_int_def py_float_def signed_digits_def split_sign_def strip_def is_space_def
  digit_val_def digits_value_def parse_decimal_def optional_digits_def is_e_def pow10_def
  lower_def lower_char_def upper_letters_def lower_letters_def max_str_digits_def

lemma rnd_overflow:
  assumes "2 ^ 1024 \<le> x"
  shows "rnd x = PInf"
proof -
  have p: "pow2 1024 = 2 ^ 1024" by (simp add: pow2_def)
  have "round_mag (of_int 1 * pow2 1024) = of_int 1 * pow2 1024"
    by (rule round_mag_exact) simp_all
  then have e: "round_mag (2 ^ 1024) = 2 ^ 1024" by (simp add: p)
  have "round_mag (2 ^ 1024) \<le> round_mag x" using assms by (intro round_mag_mono) simp_all
  then have "2 ^ 1024 \<le> round_mag x" using e by simp
  moreover have "0 < x" using assms by (rule less_le_trans [rotated]) simp
  ultimately show ?thesis by (simp add: rnd_pos)
qed

lemma overflow_token_fields:
  "field_int overflow_token ''tokenDecimal'' 18 = Some 400"
  "field_float overflow_token ''value'' = Some (Fin 1)"
  "get_str overflow_token ''functionName'' '''' = ''''"
  by (simp_all add: overflow_token_def field_int_def field_float_def get_str_def parse_defs
      rnd_one)

lemma divide_by_pow10_400: "divide_by_pow10 v 400 = Inl OverflowError"
proof -
  have "(2::rat) ^ 1024 \<le> of_int (10 ^ 400)" by simp
  then have "rnd (of_int (10 ^ 400)) = PInf" by (rule rnd_overflow)
  then have "float_of_int (10 ^ 400) = Inl OverflowError" by (simp add: float_of_int_def)
  then show ?thesis by (simp add: divide_by_pow10_def)
qed

lemma overflow_token_raises:
  "calculate_concentration_risk [overflow_token] = Inl OverflowError"
  by (simp add: calculate_concentration_risk_def track_value_def overflow_token_fields
      divide_by_pow10_400)

lemma overflow_token_liquidation:
  "calculate_liquidation_risk [] [overflow_token] = Inr (Fin 500)"
proof -
  have h: "float_lit (1 / 2) = Fin (1 / 2)" by (rule lit_half)
  show ?thesis
    by (simp add: calculate_liquidation_risk_def last50_def liquidation_step_def
        overflow_token_fields parse_defs h rnd_numeral pymin_Fin)
qed


section \<open>The batch\<close>

lemma score_wallet_step_row:
  "score_wallet_step self np gt gtt results wallet = results @ [wallet_row self np gt gtt wallet]"
  by (simp add: score_wallet_step_def wallet_row_def split: sum.splits prod.splits)

lemma score_wallet_fold:
  "foldl (score_wallet_step self np gt gtt) acc ws = acc @ map (wallet_row self np gt gtt) ws"
  by (induction ws arbitrary: acc) (simp_all add: score_wallet_step_row)

lemma score_wallet_list_map:
  "score_wallet_list self np gt gtt ws = map (wallet_row self np gt gtt) ws"
  by (simp add: score_wallet_list_def score_wallet_fold)




lemma batch_example_rows:
  "score_wallet_list (init None) np_unused (\<lambda>a. [])
       (\<lambda>a. if a = ''B'' then [overflow_token] else []) [''A'', ''B'', ''C''] =
     [scored_wallet_result ''A'' 430
        \<lparr>bd_liquidation_risk = Fin 500, bd_volatility_risk = Fin 300,
         bd_concentration_risk = Fin 600, bd_leverage_risk = Fin 300,
         bd_behavioral_risk = Fin 400, bd_final_score = 430,
         bd_tx_count = 0, bd_token_tx_count = 0\<rparr>,
      failed_wallet_result ''B'',
      scored_wallet_result ''C'' 430
        \<lparr>bd_liquidation_risk = Fin 500, bd_volatility_risk = Fin 300,
         bd_concentration_risk = Fin 600, bd_leverage_risk = Fin 300,
         bd_behavioral_risk = Fin 400, bd_final_score = 430,
         bd_tx_count = 0, bd_token_tx_count = 0\<rparr>]"
proof -
  have e: "calculate_wallet_risk_score (init None) np_unused (\<lambda>a. [])
             (\<lambda>a. if a = ''B'' then [overflow_token] else []) w =
           Inr (430, \<lparr>bd_liquidation_risk = Fin 500, bd_volatility_risk = Fin 300,
               bd_concentration_risk = Fin 600, bd_leverage_risk = Fin 300,
               bd_behavioral_risk = Fin 400, bd_final_score = 430,
               bd_tx_count = 0, bd_token_tx_count = 0\<rparr>)"
    if "w \<noteq> ''B''" for w
    using that
    by (simp add: calculate_liquidation_risk_def calculate_volatility_risk_def calculate_volatility_risk_typed_def
      calculate_concentration_risk_def calculate_leverage_risk_def
      calculate_behavioral_risk_def calculate_wallet_risk_score_def empty_final_score
      py_round1_numeral)
  have b: "calculate_wallet_risk_score (init None) np_unused (\<lambda>a. [])
             (\<lambda>a. if a = ''B'' then [overflow_token] else []) ''B'' = Inl OverflowError"
    by (simp add: calculate_wallet_risk_score_def overflow_token_liquidation
        calculate_volatility_risk_def calculate_volatility_risk_typed_def overflow_token_raises)
  show ?thesis by (simp add: score_wallet_list_map wallet_row_def e b)
qed

section \<open>Purity of the scoring\<close>



section \<open>Concentration risk\<close>












section \<open>Behavioral risk\<close>

lemma timestamps_fold:
  "foldl (\<lambda>ts tx. timestamp_step tx ts) acc txs = acc @ valid_timestamps txs"
  by (induction txs arbitrary: acc)
     (simp_all add: timestamp_step_def valid_timestamps_def map_filter_simps
        split: option.splits)

lemma rapid_count_gaps: "rapid_count ts = adjacent_gaps_under 60 ts"
  by (induction ts rule: rapid_count.induct) (simp_all add: adjacent_gaps_under_def)

lemma flags_triggered_le: "flags_triggered txs toks \<le> 3"
  by (simp add: flags_triggered_def)

lemma behavioral_nonempty:
  assumes "txs @ toks \<noteq> []"
  shows "calculate_behavioral_risk txs toks = Inr (Fin (of_nat (200 * flags_triggered txs toks)))"
proof -
  have r: "(10 < rapid_count (sort (foldl (\<lambda>ts tx. timestamp_step tx ts) [] (txs @ toks))))
            = flag_rapid txs toks"
    by (simp add: timestamps_fold rapid_count_gaps flag_rapid_def)
  have f: "(0 < length txs \<and>
            flt (fmul (float_of_len (length txs)) (float_lit (1 / 10)))
                (Fin (of_nat (length (filter is_failed txs))))) = flag_failed txs"
    by (simp add: flag_failed_def)
  have l: "(5 < length (filter is_large txs)) = flag_large txs"
    by (simp add: flag_large_def)
  have "calculate_behavioral_risk txs toks =
     Inr (Fin (of_int (min (((if flag_rapid txs toks then 1 else 0)
                             + (if flag_failed txs then 1 else 0)
                             + (if flag_large txs then 1 else 0)) * 200) 1000)))"
    using assms unfolding calculate_behavioral_risk_def Let_def r f l
    by (cases "flag_rapid txs toks"; cases "flag_failed txs"; cases "flag_large txs") simp_all
  then show ?thesis
    by (cases "flag_rapid txs toks"; cases "flag_failed txs"; cases "flag_large txs")
       (simp_all add: flags_triggered_def)
qed

text \<open>
  Claim C6, as it holds. The behavioral risk is at most 600 for every pair of lists. When
  the combined list is not empty, it is 200 times the number of triggered flags, of which
  there are at most three. For two empty lists it is 400, although no flag is triggered.
\<close>

theorem behavioral_flags:
  "calculate_behavioral_risk [] [] = Inr (Fin 400) \<and>
   flags_triggered txs toks \<le> 3 \<and>
   (txs @ toks \<noteq> [] \<longrightarrow>
      calculate_behavioral_risk txs toks = Inr (Fin (of_nat (200 * flags_triggered txs toks)))) \<and>
   (\<exists>q. calculate_behavioral_risk txs toks = Inr (Fin q) \<and> 0 \<le> q \<and> q \<le> 600)"
proof (intro conjI impI)
  show e: "calculate_behavioral_risk [] [] = Inr (Fin 400)"
    by (simp add: calculate_behavioral_risk_def)
  show "flags_triggered txs toks \<le> 3" by (rule flags_triggered_le)
  show "calculate_behavioral_risk txs toks = Inr (Fin (of_nat (200 * flags_triggered txs toks)))"
    if "txs @ toks \<noteq> []"
    using that by (rule behavioral_nonempty)
  show "\<exists>q. calculate_behavioral_risk txs toks = Inr (Fin q) \<and> 0 \<le> q \<and> q \<le> 600"
  proof (cases "txs @ toks = []")
    case True
    then show ?thesis using e by simp
  next
    case False
    have "200 * flags_triggered txs toks \<le> 600" using flags_triggered_le [of txs toks] by simp
    then have "(of_nat (200 * flags_triggered txs toks) :: rat) \<le> of_nat 600"
      by (simp only: of_nat_le_iff)
    then show ?thesis using behavioral_nonempty [OF False] by simp
  qed
qed

text \<open>
  As the specification states the claim, for every pair of lists, it fails on two empty
  lists: the result is 400 and the number of triggered flags is 0.
\<close>

theorem behavioral_flags_counterexample:
  "flags_triggered [] [] = 0 \<and>
   calculate_behavioral_risk [] [] = Inr (Fin 400) \<and>
   calculate_behavioral_risk [] [] \<noteq> Inr (Fin (of_nat (200 * flags_triggered [] [])))"
  by (simp add: calculate_behavioral_risk_def flags_triggered_def flag_rapid_def
      flag_failed_def flag_large_def valid_timestamps_def adjacent_gaps_under_def
      map_filter_simps)

lemma whale_fields:
  "field_int whale_tx ''timeStamp'' 0 = Some 100"
  "is_failed whale_tx"
  "field_float whale_tx ''value'' = Some (Fin 2000000000000000000000)"
proof -
  show "field_int whale_tx ''timeStamp'' 0 = Some 100"
    by (simp add: whale_tx_def field_int_def parse_defs)
  show "is_failed whale_tx"
    by (simp add: whale_tx_def is_failed_def get_str_def)
  have "rnd 2000000000000000000000 = Fin 2000000000000000000000"
    by (rule rnd_eval [where e = 70])
       (simp_all add: pow2_def rhe_eval [where n = 7629394531250000])
  then show "field_float whale_tx ''value'' = Some (Fin 2000000000000000000000)"
    by (simp add: whale_tx_def field_float_def parse_defs)
qed

lemma lit_1e18: "float_lit 1000000000000000000 = Fin 1000000000000000000"
  unfolding float_lit_def
  by (rule rnd_eval [where e = 59])
     (simp_all add: pow2_def rhe_eval [where n = 7812500000000000])

lemma whale_is_large: "is_large whale_tx"
  by (simp add: is_large_def whale_fields lit_1e18 rnd_numeral)

lemma whales_timestamps: "valid_timestamps (replicate n whale_tx) = replicate n 100"
  by (induction n) (simp_all add: valid_timestamps_def map_filter_simps whale_fields)

lemma gaps_replicate: "adjacent_gaps_under 60 (replicate (Suc n) (100::int)) = n"
  by (induction n) (simp_all add: adjacent_gaps_under_def)

lemma whales_flag_failed: "flag_failed (replicate 12 whale_tx)"
proof -
  have t: "float_lit (1 / 10) = Fin (3602879701896397 / 2 ^ 55)"
    using lit_010 by simp
  have l: "float_of_len 12 = Fin 12" by (simp add: float_of_len_def rnd_numeral)
  have "rnd 2 = Fin 2" by (simp add: rnd_numeral)
  then obtain q where q: "rnd (12 * (3602879701896397 / 2 ^ 55)) = Fin q" "q \<le> 2"
    using rnd_bounded [of "12 * (3602879701896397 / 2 ^ 55)" 2] by auto
  have "fmul (float_of_len 12) (float_lit (1 / 10)) = Fin q"
    by (simp only: t l fmul.simps q(1))
  then show ?thesis using q(2) by (simp add: flag_failed_def whale_fields)
qed

lemma whales_flags: "flags_triggered (replicate 12 whale_tx) [] = 3"
proof -
  have "sort (replicate 12 (100::int)) = replicate 12 100"
    by (simp add: sort_key_id_if_sorted sorted_replicate)
  moreover have "adjacent_gaps_under 60 (replicate 12 (100::int)) = 11"
    using gaps_replicate [of 11] by simp
  ultimately have r: "flag_rapid (replicate 12 whale_tx) []"
    by (simp add: flag_rapid_def whales_timestamps)
  have g: "flag_large (replicate 12 whale_tx)"
    by (simp add: flag_large_def whale_is_large)
  show ?thesis by (simp add: flags_triggered_def r g whales_flag_failed)
qed

theorem behavioral_flags_witness:
  "replicate 12 whale_tx @ [] \<noteq> [] \<and>
   flags_triggered (replicate 12 whale_tx) [] = 3 \<and>
   calculate_behavioral_risk (replicate 12 whale_tx) [] = Inr (Fin 600)"
  using behavioral_flags [of "replicate 12 whale_tx" "[]"] whales_flags
  by simp

section \<open>Liquidation risk\<close>








section \<open>The range of the scores\<close>





















end
